theory Spec2Isabelle
  imports Main "HOL-Library.Char_ord" "HOL-Library.List_Lexorder"
begin

section \<open>The HTTPS control server of CrSDK-HTTPS-Server\<close>

text \<open>
  A shallow embedding of \<^verbatim>\<open>src/https_server/https_server.cpp\<close>: the eight route
  handlers, the startup routine \<^verbatim>\<open>Server::run\<close>, the port check, the monitoring
  thread and \<^verbatim>\<open>Server::restartServer\<close>.

  The handlers mutate a \<^verbatim>\<open>httplib::Response\<close> passed by reference, call into the
  device through the pointer \<^verbatim>\<open>crsdkInterface_\<close>, write to the log and may leave
  through \<^verbatim>\<open>return\<close> or through an exception that the handler's own
  \<^verbatim>\<open>catch (const std::exception &)\<close> swallows.  The model passes the response and the
  device state explicitly and returns, with the final response, the list of device calls
  and the list of log lines the handler produced.  Dereferencing a null
  \<^verbatim>\<open>crsdkInterface_\<close> is undefined behaviour; the model returns \<open>None\<close> there.
\<close>

subsection \<open>The parts of cpp-httplib the server uses\<close>

text \<open>
  \<^verbatim>\<open>httplib::Request::params\<close> is a multimap from names to raw values; equal names keep
  their order of arrival, so an association list in that order represents it.
  \<^verbatim>\<open>get_param_value(key)\<close> returns the first value stored under the key and the empty
  string when there is none.
\<close>

record Request =
  params :: "(string \<times> string) list"

definition get_param_value :: "Request \<Rightarrow> string \<Rightarrow> string" where
  "get_param_value req key = (case map_of (params req) key of None \<Rightarrow> [] | Some v \<Rightarrow> v)"

text \<open>
  \<^verbatim>\<open>httplib::Response\<close> starts with status \<open>-1\<close>, no header and an empty body.
  \<^verbatim>\<open>set_header\<close> adds a header line; \<^verbatim>\<open>set_content\<close> replaces the body, removes every
  \<^verbatim>\<open>Content-Type\<close> header and adds the new one.  The library keeps the header lines
  sorted by name; the model keeps them in the order they were added, and no property
  below depends on the order.
\<close>

record Response =
  status :: int
  headers :: "(string \<times> string) list"
  body :: string

definition Response_init :: Response where
  "Response_init = \<lparr>status = - 1, headers = [], body = []\<rparr>"

definition set_header :: "string \<Rightarrow> string \<Rightarrow> Response \<Rightarrow> Response" where
  "set_header key val res = res\<lparr>headers := headers res @ [(key, val)]\<rparr>"

definition set_content :: "string \<Rightarrow> string \<Rightarrow> Response \<Rightarrow> Response" where
  "set_content s content_type res =
     set_header ''Content-Type'' content_type
       (res\<lparr>body := s, headers := filter (\<lambda>h. fst h \<noteq> ''Content-Type'') (headers res)\<rparr>)"

definition get_header_value :: "Response \<Rightarrow> string \<Rightarrow> string" where
  "get_header_value res key = (case map_of (headers res) key of None \<Rightarrow> [] | Some v \<Rightarrow> v)"

subsection \<open>Exceptions\<close>

text \<open>
  The exceptions that the modelled code can raise, all derived from
  \<^verbatim>\<open>std::exception\<close>: \<^verbatim>\<open>std::invalid_argument\<close> and \<^verbatim>\<open>std::out_of_range\<close> from
  \<^verbatim>\<open>std::stoi\<close>, \<^verbatim>\<open>nlohmann::json::type_error\<close> from \<^verbatim>\<open>dump\<close>, and the
  \<^verbatim>\<open>std::runtime_error\<close> that the server throws itself, with its message.
\<close>

datatype exn = Invalid_argument | Out_of_range | Json_type_error | Runtime_error string

subsection \<open>\<^verbatim>\<open>std::stoi\<close>\<close>

text \<open>
  \<^verbatim>\<open>std::stoi(s)\<close> in base 10: leading white space is skipped, one sign is accepted,
  the longest run of decimal digits is read and whatever follows is ignored.  Without a
  digit it throws \<^verbatim>\<open>std::invalid_argument\<close>; a value that does not fit a 32-bit
  \<^verbatim>\<open>int\<close> throws \<^verbatim>\<open>std::out_of_range\<close>.
\<close>

definition isspace :: "char \<Rightarrow> bool" where
  "isspace c \<longleftrightarrow> c \<in> set [CHR '' '', CHR 0x09, CHR 0x0A, CHR 0x0B, CHR 0x0C, CHR 0x0D]"

definition isdigit :: "char \<Rightarrow> bool" where
  "isdigit c \<longleftrightarrow> c \<in> set ''0123456789''"

definition digit_val :: "char \<Rightarrow> int" where
  "digit_val c = int (of_char c) - 48"

definition digits_val :: "string \<Rightarrow> int" where
  "digits_val ds = foldl (\<lambda>acc c. 10 * acc + digit_val c) 0 ds"

definition INT_MIN :: int where "INT_MIN = - 2147483648"
definition INT_MAX :: int where "INT_MAX = 2147483647"

definition stoi :: "string \<Rightarrow> exn + int" where
  "stoi s =
     (let t = dropWhile isspace s;
          neg = (t \<noteq> [] \<and> hd t = CHR ''-'');
          u = (if t \<noteq> [] \<and> (hd t = CHR ''-'' \<or> hd t = CHR ''+'') then tl t else t);
          ds = takeWhile isdigit u
      in if ds = [] then Inl Invalid_argument
         else let v = (if neg then - digits_val ds else digits_val ds)
              in if v < INT_MIN \<or> INT_MAX < v then Inl Out_of_range else Inr v)"

subsection \<open>The parts of nlohmann::json the server uses\<close>

text \<open>
  A handler's \<^verbatim>\<open>resolution_json\<close> starts as \<^verbatim>\<open>null\<close>; \<^verbatim>\<open>j[key] = value\<close> turns
  \<^verbatim>\<open>null\<close> into an object and stores a string under the key.  The object is a
  \<^verbatim>\<open>std::map\<close>, so its keys are kept in increasing byte order.
\<close>

datatype json = Null | Object "(string \<times> string) list"

fun insert_key :: "string \<Rightarrow> string \<Rightarrow> (string \<times> string) list \<Rightarrow> (string \<times> string) list" where
  "insert_key k v [] = [(k, v)]"
| "insert_key k v ((k', v') # kvs) =
     (if k = k' then (k, v) # kvs
      else if k < k' then (k, v) # (k', v') # kvs
      else (k', v') # insert_key k v kvs)"

fun json_set :: "json \<Rightarrow> string \<Rightarrow> string \<Rightarrow> json" where
  "json_set Null k v = Object [(k, v)]"
| "json_set (Object kvs) k v = Object (insert_key k v kvs)"

fun json_has :: "json \<Rightarrow> string \<Rightarrow> bool" where
  "json_has Null k = False"
| "json_has (Object kvs) k = (k \<in> fst ` set kvs)"

text \<open>
  \<^verbatim>\<open>dump()\<close> with its default arguments: no white space, strings between double
  quotes with the quote, the backslash and the control characters escaped, bytes from
  \<^verbatim>\<open>0x80\<close> on copied as they are.  A string that is not well-formed UTF-8 makes
  \<^verbatim>\<open>dump\<close> throw \<^verbatim>\<open>type_error\<close> (316).
\<close>

datatype utf8_state = Accept | Need nat nat nat

fun utf8_valid :: "utf8_state \<Rightarrow> nat list \<Rightarrow> bool" where
  "utf8_valid st [] = (st = Accept)"
| "utf8_valid Accept (b # bs) =
     (if b < 0x80 then utf8_valid Accept bs
      else if 0xC2 \<le> b \<and> b \<le> 0xDF then utf8_valid (Need 0x80 0xBF 0) bs
      else if b = 0xE0 then utf8_valid (Need 0xA0 0xBF 1) bs
      else if b = 0xED then utf8_valid (Need 0x80 0x9F 1) bs
      else if 0xE1 \<le> b \<and> b \<le> 0xEF then utf8_valid (Need 0x80 0xBF 1) bs
      else if b = 0xF0 then utf8_valid (Need 0x90 0xBF 2) bs
      else if 0xF1 \<le> b \<and> b \<le> 0xF3 then utf8_valid (Need 0x80 0xBF 2) bs
      else if b = 0xF4 then utf8_valid (Need 0x80 0x8F 2) bs
      else False)"
| "utf8_valid (Need lo hi n) (b # bs) =
     (if lo \<le> b \<and> b \<le> hi
      then utf8_valid (if n = 0 then Accept else Need 0x80 0xBF (n - 1)) bs
      else False)"

definition hex_digit :: "nat \<Rightarrow> char" where
  "hex_digit n = ''0123456789abcdef'' ! (n mod 16)"

definition escape_char :: "char \<Rightarrow> string" where
  "escape_char c =
     (if c = CHR 0x08 then [CHR 0x5C, CHR ''b'']
      else if c = CHR 0x09 then [CHR 0x5C, CHR ''t'']
      else if c = CHR 0x0A then [CHR 0x5C, CHR ''n'']
      else if c = CHR 0x0C then [CHR 0x5C, CHR ''f'']
      else if c = CHR 0x0D then [CHR 0x5C, CHR ''r'']
      else if c = CHR 0x22 then [CHR 0x5C, CHR 0x22]
      else if c = CHR 0x5C then [CHR 0x5C, CHR 0x5C]
      else if (of_char c :: nat) \<le> 0x1F
        then [CHR 0x5C, CHR ''u'', CHR ''0'', CHR ''0'',
              hex_digit (of_char c div 16), hex_digit (of_char c)]
      else [c])"

definition dump_string :: "string \<Rightarrow> exn + string" where
  "dump_string s =
     (if utf8_valid Accept (map of_char s)
      then Inr ([CHR 0x22] @ concat (map escape_char s) @ [CHR 0x22])
      else Inl Json_type_error)"

fun dump_members :: "(string \<times> string) list \<Rightarrow> exn + string" where
  "dump_members [] = Inr []"
| "dump_members ((k, v) # kvs) =
     (case dump_string k of
        Inl e \<Rightarrow> Inl e
      | Inr dk \<Rightarrow>
          (case dump_string v of
             Inl e \<Rightarrow> Inl e
           | Inr dv \<Rightarrow>
               (case dump_members kvs of
                  Inl e \<Rightarrow> Inl e
                | Inr rest \<Rightarrow> Inr (dk @ '':'' @ dv @ (if kvs = [] then [] else '','') @ rest))))"

fun dump :: "json \<Rightarrow> exn + string" where
  "dump Null = Inr ''null''"
| "dump (Object kvs) =
     (case dump_members kvs of Inl e \<Rightarrow> Inl e | Inr ms \<Rightarrow> Inr (''{'' @ ms @ ''}''))"

subsection \<open>The device command interface\<close>

text \<open>
  \<^verbatim>\<open>CrSDKInterface\<close> is declared outside the modelled file.  The server only calls its
  member functions through the pointer \<^verbatim>\<open>crsdkInterface_\<close>, so the interface is a
  parameter of the model: a record of operations over a device state \<open>'d\<close>, each returning
  its result and the next device state.  A null pointer is \<open>None\<close>.
\<close>

record 'd CrSDKInterface =
  switchToPMode :: "int \<Rightarrow> 'd \<Rightarrow> bool \<times> 'd"
  switchToMMode :: "int \<Rightarrow> 'd \<Rightarrow> bool \<times> 'd"
  changeBrightness :: "int \<Rightarrow> int \<Rightarrow> 'd \<Rightarrow> bool \<times> 'd"
  changeAFAreaPosition :: "int \<Rightarrow> int \<Rightarrow> int \<Rightarrow> 'd \<Rightarrow> bool \<times> 'd"
  getCameraMode :: "int \<Rightarrow> 'd \<Rightarrow> bool \<times> 'd"
  getCameraModeStr :: "int \<Rightarrow> 'd \<Rightarrow> string \<times> 'd"
  uploadCameraSetting :: "int \<Rightarrow> 'd \<Rightarrow> bool \<times> 'd"

datatype dev_call =
    SwitchToPMode int
  | SwitchToMMode int
  | ChangeBrightness int int
  | ChangeAFAreaPosition int int int
  | GetCameraMode int
  | GetCameraModeStr int
  | UploadCameraSetting int

subsection \<open>Logging\<close>

text \<open>
  A line written through \<^verbatim>\<open>spdlog::info\<close> or \<^verbatim>\<open>spdlog::error\<close>.  A line that prints
  \<^verbatim>\<open>e.what()\<close> keeps the format string and the exception apart.
\<close>

datatype log_line = Info string | Error string | Error_what string exn

subsection \<open>Route handlers\<close>

record 'd handler_state =
  res :: Response
  dev :: 'd
  calls :: "dev_call list"
  logs :: "log_line list"

definition handler_init :: "'d \<Rightarrow> 'd handler_state" where
  "handler_init d = \<lparr>res = Response_init, dev = d, calls = [], logs = []\<rparr>"

text \<open>The \<^verbatim>\<open>catch (const std::exception &e)\<close> of a handler: one log line, nothing else.\<close>

definition catch_log :: "string \<Rightarrow> exn \<Rightarrow> 'd handler_state \<Rightarrow> 'd handler_state" where
  "catch_log fmt e st = st\<lparr>logs := logs st @ [Error_what fmt e]\<rparr>"

text \<open>
  The last statement of a handler's \<^verbatim>\<open>try\<close> block,
  \<^verbatim>\<open>res.set_content(resolution_json.dump(), "application/json")\<close>, under the handler's
  \<^verbatim>\<open>catch\<close>.
\<close>

definition send_json :: "string \<Rightarrow> json \<Rightarrow> 'd handler_state \<Rightarrow> 'd handler_state" where
  "send_json fmt resolution_json st =
     (case dump resolution_json of
        Inl e \<Rightarrow> catch_log fmt e st
      | Inr s \<Rightarrow> st\<lparr>res := set_content s ''application/json'' (res st)\<rparr>)"

text \<open>
  \<^verbatim>\<open>handleIndicator\<close> (lines 180 to 197).
\<close>

definition handleIndicator :: "Request \<Rightarrow> 'd handler_state \<Rightarrow> 'd handler_state option" where
  "handleIndicator req st =
     (let st1 = st\<lparr>res := set_header ''Access-Control-Allow-Origin'' ''*'' (res st)\<rparr>;
          response_json = json_set Null ''message'' ''The server is running'';
          st2 = st1\<lparr>res := (res st1)\<lparr>status := 200\<rparr>\<rparr>
      in Some (send_json ''Indicator Route Error: {}'' response_json st2))"

text \<open>
  The seven other handlers open with the same statements (lines 203 to 228 in
  \<^verbatim>\<open>handleSwitchToPMode\<close>, repeated word for word in the six others): set the
  cross-origin header, read \<^verbatim>\<open>camera_id\<close>, answer 400 and return when it is empty,
  convert it with \<^verbatim>\<open>std::stoi\<close>, answer 400 and return when the number is outside
  0..3.  The three ways out of these statements are the constructors of \<open>prologue\<close>:
  an early \<^verbatim>\<open>return\<close>, an exception of \<^verbatim>\<open>std::stoi\<close> on its way to the handler's
  \<^verbatim>\<open>catch\<close>, or the accepted \<^verbatim>\<open>camera_id\<close>.
\<close>

datatype prologue = Returned Response | Threw exn Response | Camera_id int Response

definition camera_id_prologue :: "Request \<Rightarrow> Response \<Rightarrow> prologue" where
  "camera_id_prologue req res0 =
     (let r = set_header ''Access-Control-Allow-Origin'' ''*'' res0;
          camera_id_param = get_param_value req ''camera_id''
      in if camera_id_param = []
         then Returned (set_content ''Missing camera_id parameter'' ''text/plain'' (r\<lparr>status := 400\<rparr>))
         else case stoi camera_id_param of
                Inl e \<Rightarrow> Threw e r
              | Inr camera_id \<Rightarrow>
                  if camera_id < 0 \<or> camera_id > 3
                  then Returned (set_content ''Camera_id out of range'' ''text/plain'' (r\<lparr>status := 400\<rparr>))
                  else Camera_id camera_id r)"

definition route_error :: string where
  "route_error = ''Get resolution Route Error: {}''"

text \<open>
  \<^verbatim>\<open>handleSwitchToPMode\<close> (lines 199 to 259), the one handler that tests
  \<^verbatim>\<open>crsdkInterface_\<close> before using it.
\<close>

definition handleSwitchToPMode ::
  "'d CrSDKInterface option \<Rightarrow> Request \<Rightarrow> 'd handler_state \<Rightarrow> 'd handler_state option" where
  "handleSwitchToPMode crsdkInterface req st =
     (case camera_id_prologue req (res st) of
        Returned r \<Rightarrow> Some (st\<lparr>res := r\<rparr>)
      | Threw e r \<Rightarrow> Some (catch_log route_error e (st\<lparr>res := r\<rparr>))
      | Camera_id camera_id r \<Rightarrow>
          (let (success, st1) =
                 (case crsdkInterface of
                    Some iface \<Rightarrow>
                      (let (b, d') = switchToPMode iface camera_id (dev st)
                       in (b, st\<lparr>res := r, dev := d',
                                 calls := calls st @ [SwitchToPMode camera_id],
                                 logs := logs st @ [Info ''switch to P mode'']\<rparr>))
                  | None \<Rightarrow>
                      (False, st\<lparr>res := r,
                                 logs := logs st @ [Error ''ERROR: crsdkInterface_ is nullptr'']\<rparr>));
               (resolution_json, st2) =
                 (if success
                  then (json_set Null ''message'' ''Successfully switched to P mode'',
                        st1\<lparr>res := (res st1)\<lparr>status := 200\<rparr>\<rparr>)
                  else (json_set Null ''error'' ''Failed to switch to P mode'',
                        st1\<lparr>res := (res st1)\<lparr>status := 500\<rparr>\<rparr>))
           in Some (send_json route_error resolution_json st2)))"

text \<open>\<^verbatim>\<open>handleSwitchToMMode\<close> (lines 261 to 313).\<close>

definition handleSwitchToMMode ::
  "'d CrSDKInterface option \<Rightarrow> Request \<Rightarrow> 'd handler_state \<Rightarrow> 'd handler_state option" where
  "handleSwitchToMMode crsdkInterface req st =
     (case camera_id_prologue req (res st) of
        Returned r \<Rightarrow> Some (st\<lparr>res := r\<rparr>)
      | Threw e r \<Rightarrow> Some (catch_log route_error e (st\<lparr>res := r\<rparr>))
      | Camera_id camera_id r \<Rightarrow>
          (case crsdkInterface of
             None \<Rightarrow> None
           | Some iface \<Rightarrow>
               (let (success, d') = switchToMMode iface camera_id (dev st);
                    st1 = st\<lparr>res := r, dev := d', calls := calls st @ [SwitchToMMode camera_id]\<rparr>;
                    (resolution_json, st2) =
                      (if success
                       then (json_set Null ''message'' ''Successfully switched to M mode'',
                             st1\<lparr>res := (res st1)\<lparr>status := 200\<rparr>\<rparr>)
                       else (json_set Null ''error'' ''Failed to switch to M mode'',
                             st1\<lparr>res := (res st1)\<lparr>status := 500\<rparr>\<rparr>))
                in Some (send_json route_error resolution_json st2))))"

text \<open>
  \<^verbatim>\<open>handleChangeBrightness\<close> (lines 315 to 383).  The branch for an empty
  \<^verbatim>\<open>brightness_value\<close> sets the status and a text body and has no \<^verbatim>\<open>return\<close>: control
  reaches the \<^verbatim>\<open>set_content\<close> of line 376 with \<^verbatim>\<open>resolution_json\<close> still \<^verbatim>\<open>null\<close>.
\<close>

definition handleChangeBrightness ::
  "'d CrSDKInterface option \<Rightarrow> Request \<Rightarrow> 'd handler_state \<Rightarrow> 'd handler_state option" where
  "handleChangeBrightness crsdkInterface req st =
     (case camera_id_prologue req (res st) of
        Returned r \<Rightarrow> Some (st\<lparr>res := r\<rparr>)
      | Threw e r \<Rightarrow> Some (catch_log route_error e (st\<lparr>res := r\<rparr>))
      | Camera_id camera_id r \<Rightarrow>
          (let brightness_value_param = get_param_value req ''brightness_value''
           in if brightness_value_param \<noteq> []
              then (case stoi brightness_value_param of
                      Inl e \<Rightarrow> Some (catch_log route_error e (st\<lparr>res := r\<rparr>))
                    | Inr brightnessValue \<Rightarrow>
                        (case crsdkInterface of
                           None \<Rightarrow> None
                         | Some iface \<Rightarrow>
                             (let (success, d') =
                                    changeBrightness iface camera_id brightnessValue (dev st);
                                  st1 = st\<lparr>res := r, dev := d',
                                           calls := calls st @ [ChangeBrightness camera_id brightnessValue]\<rparr>;
                                  (resolution_json, st2) =
                                    (if success
                                     then (json_set Null ''message'' ''Successfully changed brightness value'',
                                           st1\<lparr>res := (res st1)\<lparr>status := 200\<rparr>\<rparr>)
                                     else (json_set Null ''error'' ''Failed to change brightness value'',
                                           st1\<lparr>res := (res st1)\<lparr>status := 500\<rparr>\<rparr>))
                              in Some (send_json route_error resolution_json st2))))
              else Some (send_json route_error Null
                     (st\<lparr>res := set_content ''Missing or invalid parameters'' ''text/plain''
                                   (r\<lparr>status := 400\<rparr>)\<rparr>))))"

text \<open>
  \<^verbatim>\<open>handleChangeAFAreaPosition\<close> (lines 385 to 454), with the same fall-through when
  \<^verbatim>\<open>x\<close> or \<^verbatim>\<open>y\<close> is empty.
\<close>

definition handleChangeAFAreaPosition ::
  "'d CrSDKInterface option \<Rightarrow> Request \<Rightarrow> 'd handler_state \<Rightarrow> 'd handler_state option" where
  "handleChangeAFAreaPosition crsdkInterface req st =
     (case camera_id_prologue req (res st) of
        Returned r \<Rightarrow> Some (st\<lparr>res := r\<rparr>)
      | Threw e r \<Rightarrow> Some (catch_log route_error e (st\<lparr>res := r\<rparr>))
      | Camera_id camera_id r \<Rightarrow>
          (let x_param = get_param_value req ''x'';
               y_param = get_param_value req ''y''
           in if x_param \<noteq> [] \<and> y_param \<noteq> []
              then (case stoi x_param of
                      Inl e \<Rightarrow> Some (catch_log route_error e (st\<lparr>res := r\<rparr>))
                    | Inr x \<Rightarrow>
                   (case stoi y_param of
                      Inl e \<Rightarrow> Some (catch_log route_error e (st\<lparr>res := r\<rparr>))
                    | Inr y \<Rightarrow>
                        (case crsdkInterface of
                           None \<Rightarrow> None
                         | Some iface \<Rightarrow>
                             (let (success, d') = changeAFAreaPosition iface camera_id x y (dev st);
                                  st1 = st\<lparr>res := r, dev := d',
                                           calls := calls st @ [ChangeAFAreaPosition camera_id x y]\<rparr>;
                                  (resolution_json, st2) =
                                    (if success
                                     then (json_set Null ''message'' ''Successfully changed AF Area Position'',
                                           st1\<lparr>res := (res st1)\<lparr>status := 200\<rparr>\<rparr>)
                                     else (json_set Null ''error'' ''Failed to change AF Area Position'',
                                           st1\<lparr>res := (res st1)\<lparr>status := 500\<rparr>\<rparr>))
                              in Some (send_json route_error resolution_json st2)))))
              else Some (send_json route_error Null
                     (st\<lparr>res := set_content ''Missing or invalid parameters'' ''text/plain''
                                   (r\<lparr>status := 400\<rparr>)\<rparr>))))"

text \<open>
  \<^verbatim>\<open>handleGetCameraMode\<close> (lines 456 to 509): on success the mode string of the device
  is stored under \<^verbatim>\<open>mode\<close>, after \<^verbatim>\<open>message\<close>.
\<close>

definition handleGetCameraMode ::
  "'d CrSDKInterface option \<Rightarrow> Request \<Rightarrow> 'd handler_state \<Rightarrow> 'd handler_state option" where
  "handleGetCameraMode crsdkInterface req st =
     (case camera_id_prologue req (res st) of
        Returned r \<Rightarrow> Some (st\<lparr>res := r\<rparr>)
      | Threw e r \<Rightarrow> Some (catch_log route_error e (st\<lparr>res := r\<rparr>))
      | Camera_id camera_id r \<Rightarrow>
          (case crsdkInterface of
             None \<Rightarrow> None
           | Some iface \<Rightarrow>
               (let (success, d') = getCameraMode iface camera_id (dev st);
                    st1 = st\<lparr>res := r, dev := d', calls := calls st @ [GetCameraMode camera_id]\<rparr>;
                    (resolution_json, st2) =
                      (if success
                       then (let j = json_set Null ''message'' ''Successfully retrieved camera mode'';
                                 (mode, d'') = getCameraModeStr iface camera_id (dev st1)
                             in (json_set j ''mode'' mode,
                                 st1\<lparr>res := (res st1)\<lparr>status := 200\<rparr>, dev := d'',
                                     calls := calls st1 @ [GetCameraModeStr camera_id]\<rparr>))
                       else (json_set Null ''error'' ''Failed to retrieve camera mode'',
                             st1\<lparr>res := (res st1)\<lparr>status := 500\<rparr>\<rparr>))
                in Some (send_json route_error resolution_json st2))))"

text \<open>
  \<^verbatim>\<open>handleDownloadCameraSetting\<close> (lines 511 to 563); the device operation it calls is
  \<^verbatim>\<open>getCameraMode\<close>.
\<close>

definition handleDownloadCameraSetting ::
  "'d CrSDKInterface option \<Rightarrow> Request \<Rightarrow> 'd handler_state \<Rightarrow> 'd handler_state option" where
  "handleDownloadCameraSetting crsdkInterface req st =
     (case camera_id_prologue req (res st) of
        Returned r \<Rightarrow> Some (st\<lparr>res := r\<rparr>)
      | Threw e r \<Rightarrow> Some (catch_log route_error e (st\<lparr>res := r\<rparr>))
      | Camera_id camera_id r \<Rightarrow>
          (case crsdkInterface of
             None \<Rightarrow> None
           | Some iface \<Rightarrow>
               (let (success, d') = getCameraMode iface camera_id (dev st);
                    st1 = st\<lparr>res := r, dev := d', calls := calls st @ [GetCameraMode camera_id]\<rparr>;
                    (resolution_json, st2) =
                      (if success
                       then (json_set Null ''message'' ''Successfully download camera setting'',
                             st1\<lparr>res := (res st1)\<lparr>status := 200\<rparr>\<rparr>)
                       else (json_set Null ''error'' ''Failed to download camera setting'',
                             st1\<lparr>res := (res st1)\<lparr>status := 500\<rparr>\<rparr>))
                in Some (send_json route_error resolution_json st2))))"

text \<open>\<^verbatim>\<open>handleUploadCameraSetting\<close> (lines 565 to 617).\<close>

definition handleUploadCameraSetting ::
  "'d CrSDKInterface option \<Rightarrow> Request \<Rightarrow> 'd handler_state \<Rightarrow> 'd handler_state option" where
  "handleUploadCameraSetting crsdkInterface req st =
     (case camera_id_prologue req (res st) of
        Returned r \<Rightarrow> Some (st\<lparr>res := r\<rparr>)
      | Threw e r \<Rightarrow> Some (catch_log route_error e (st\<lparr>res := r\<rparr>))
      | Camera_id camera_id r \<Rightarrow>
          (case crsdkInterface of
             None \<Rightarrow> None
           | Some iface \<Rightarrow>
               (let (success, d') = uploadCameraSetting iface camera_id (dev st);
                    st1 = st\<lparr>res := r, dev := d', calls := calls st @ [UploadCameraSetting camera_id]\<rparr>;
                    (resolution_json, st2) =
                      (if success
                       then (json_set Null ''message'' ''Successfully upload camera setting'',
                             st1\<lparr>res := (res st1)\<lparr>status := 200\<rparr>\<rparr>)
                       else (json_set Null ''error'' ''Failed to upload camera setting'',
                             st1\<lparr>res := (res st1)\<lparr>status := 500\<rparr>\<rparr>))
                in Some (send_json route_error resolution_json st2))))"

text \<open>\<^verbatim>\<open>setupRoutes\<close> (lines 17 to 52): the paths served under GET and their handlers.\<close>

definition setupRoutes ::
  "(string \<times> ('d CrSDKInterface option \<Rightarrow> Request \<Rightarrow> 'd handler_state \<Rightarrow> 'd handler_state option)) list" where
  "setupRoutes =
     [(''/'', \<lambda>crsdkInterface. handleIndicator),
      (''/switch_to_p_mode'', handleSwitchToPMode),
      (''/switch_to_m_mode'', handleSwitchToMMode),
      (''/change_brightness'', handleChangeBrightness),
      (''/change_af_area_position'', handleChangeAFAreaPosition),
      (''/get_camera_mode'', handleGetCameraMode),
      (''/download_camera_setting'', handleDownloadCameraSetting),
      (''/upload_camera_setting'', handleUploadCameraSetting)]"

text \<open>The handlers that read \<^verbatim>\<open>camera_id\<close>: every route but the first.\<close>

definition camera_id_routes ::
  "(string \<times> ('d CrSDKInterface option \<Rightarrow> Request \<Rightarrow> 'd handler_state \<Rightarrow> 'd handler_state option)) list" where
  "camera_id_routes = tl setupRoutes"

subsection \<open>Startup, the monitoring thread and the restart\<close>

text \<open>
  What the server does outside the handlers is recorded as a list of actions, in the
  order of execution.  A call may return to its caller, never return (a
  \<^verbatim>\<open>listen\<close> that serves, a \<^verbatim>\<open>join\<close> on the monitoring thread, whose loop has no
  exit), or end the process.  Constructing the \<^verbatim>\<open>std::thread\<close> is taken to succeed.
\<close>

text \<open>The members \<^verbatim>\<open>host_\<close> and \<^verbatim>\<open>port_\<close> of \<^verbatim>\<open>Server\<close>, without the trailing underscore.\<close>

record ServerConfig =
  host :: string
  port :: int

datatype action =
    Log log_line
  | Sleep_seconds nat
  | Listen string int
  | Start_monitoring_thread
  | Join_monitoring_thread

datatype completion = Returns | Never_returns | Terminates_process

text \<open>
  Sequential composition: what follows a call runs only when the call returns.
\<close>

fun then_do :: "action list \<times> completion \<Rightarrow> action list \<times> completion \<Rightarrow> action list \<times> completion" where
  "then_do (as, Returns) (bs, c) = (as @ bs, c)"
| "then_do (as, Never_returns) _ = (as, Never_returns)"
| "then_do (as, Terminates_process) _ = (as, Terminates_process)"

text \<open>
  \<^verbatim>\<open>server.listen(host_, port_)\<close> either returns a flag (it could not bind, or the
  server was stopped) or keeps serving; the outcome is an input of the model:
  \<open>Some b\<close> for a return, \<open>None\<close> for a call that does not return.
\<close>

definition listen :: "ServerConfig \<Rightarrow> bool option \<Rightarrow> action list \<times> completion" where
  "listen cfg outcome =
     ([Listen (host cfg) (port cfg)], case outcome of None \<Rightarrow> Never_returns | Some b \<Rightarrow> Returns)"

text \<open>\<^verbatim>\<open>std::to_string\<close> on an \<^verbatim>\<open>int\<close>: decimal digits, with a minus sign when negative.\<close>

definition digit_char :: "nat \<Rightarrow> char" where
  "digit_char n = ''0123456789'' ! (n mod 10)"

fun digits :: "nat \<Rightarrow> string" where
  "digits n = (if n < 10 then [digit_char n] else digits (n div 10) @ [digit_char (n mod 10)])"

definition to_string :: "int \<Rightarrow> string" where
  "to_string i = (if i < 0 then ''-'' @ digits (nat (- i)) else digits (nat i))"

text \<open>
  \<^verbatim>\<open>isPortAvailable\<close> (lines 54 to 75), as a function of what \<^verbatim>\<open>socket\<close> and
  \<^verbatim>\<open>bind\<close> returned.
\<close>

definition isPortAvailable :: "int \<Rightarrow> int \<Rightarrow> exn + bool" where
  "isPortAvailable sockfd bind_result =
     (if sockfd < 0 then Inl (Runtime_error ''Failed to create socket!'')
      else if bind_result < 0 then Inr False
      else Inr True)"

text \<open>What the operating system and the listener answer during one call of \<^verbatim>\<open>run\<close>.\<close>

record startup_env =
  socket_result :: int
  bind_result :: int
  listen_outcome :: "bool option"

text \<open>
  \<^verbatim>\<open>Server::run\<close> (lines 78 to 107).  An exception inside the \<^verbatim>\<open>try\<close> block is
  logged by the \<^verbatim>\<open>catch\<close>; the monitoring thread is then not joinable (it was never
  started) and \<^verbatim>\<open>run\<close> returns.  Otherwise the thread is started, \<^verbatim>\<open>listen\<close> is
  called, and once it returns the thread is joined.
\<close>

definition run :: "ServerConfig \<Rightarrow> startup_env \<Rightarrow> action list \<times> completion" where
  "run cfg env =
     (case (case isPortAvailable (socket_result env) (bind_result env) of
              Inl e \<Rightarrow> Inl e
            | Inr available \<Rightarrow>
                if \<not> available
                then Inl (Runtime_error (''Port '' @ to_string (port cfg) @ '' is not available!''))
                else Inr ()) of
        Inl e \<Rightarrow> ([Log (Error_what ''Server Error: {}'' e)], Returns)
      | Inr _ \<Rightarrow>
          then_do
            (then_do
               ([Log (Info (''The server runs at address: '' @ host cfg @ '':'' @ to_string (port cfg))),
                 Start_monitoring_thread], Returns)
               (listen cfg (listen_outcome env)))
            ([Log (Info ''Start listening successfully''), Join_monitoring_thread], Never_returns))"

text \<open>
  \<^verbatim>\<open>Server::restartServer\<close> (lines 170 to 178).
\<close>

definition restartServer :: "ServerConfig \<Rightarrow> bool option \<Rightarrow> action list \<times> completion" where
  "restartServer cfg outcome =
     then_do
       (then_do ([Sleep_seconds 1], Returns) (listen cfg outcome))
       ([Log (Info ''Server initialization succeeded'')], Returns)"

text \<open>
  The values of \<^verbatim>\<open>httplib::Error\<close> that the monitoring thread tests for, and one
  constructor for all the other failures (reading, writing, the TLS handshake and so on).
\<close>

datatype Error = Connection | ConnectionTimeout | ProxyConnection | Other_error

text \<open>
  What one probe \<^verbatim>\<open>cli.Get("/")\<close> can give: a \<^verbatim>\<open>Result\<close> holding an error, a
  \<^verbatim>\<open>Result\<close> holding a response, or an exception out of the client.
\<close>

datatype probe = Request_failed Error | Response_received Response | Probe_threw exn

text \<open>
  One iteration of the \<^verbatim>\<open>while (true)\<close> loop of the monitoring thread (lines 114 to
  165): the \<^verbatim>\<open>try\<close> block with its \<^verbatim>\<open>catch\<close>, then the sleep of 60 seconds.
\<close>

definition monitor_cycle :: "ServerConfig \<Rightarrow> probe \<Rightarrow> bool option \<Rightarrow> action list \<times> completion" where
  "monitor_cycle cfg p outcome =
     then_do
       (case p of
          Probe_threw e \<Rightarrow>
            ([Log (Error_what ''Unexpected error in monitoring thread: {}'' e)], Returns)
        | Request_failed err \<Rightarrow>
            then_do ([Log (Error ''Error sending GET request'')], Returns)
              (if err = Connection \<or> err = ConnectionTimeout \<or> err = ProxyConnection
               then then_do ([Log (Error ''Connection error! Restarting server...'')], Returns)
                      (restartServer cfg outcome)
               else ([], Returns))
        | Response_received response \<Rightarrow>
            (let isServerRunning = (status response = 200)
             in if \<not> isServerRunning
                then then_do ([Log (Error ''Server crashed. Restarting...'')], Returns)
                       (restartServer cfg outcome)
                else ([Log (Info ''The server running'')], Returns)))
       ([Sleep_seconds 60], Returns)"

text \<open>
  The loop itself never ends; the model runs it over a finite list of observations (one
  probe result and one \<^verbatim>\<open>listen\<close> outcome per iteration) and gives the actions of
  these iterations.  The thread is still in the loop afterwards, or stuck in a
  \<^verbatim>\<open>listen\<close> that serves.
\<close>

fun monitoring_loop :: "ServerConfig \<Rightarrow> (probe \<times> bool option) list \<Rightarrow> action list \<times> completion" where
  "monitoring_loop cfg [] = ([], Never_returns)"
| "monitoring_loop cfg ((p, outcome) # obs) =
     then_do (monitor_cycle cfg p outcome) (monitoring_loop cfg obs)"

text \<open>
  \<^verbatim>\<open>restartServer\<close> is the only code of the monitoring thread that calls
  \<^verbatim>\<open>listen\<close>, and it calls it once: \<^verbatim>\<open>Listen\<close> actions count its invocations.
\<close>

fun is_Listen :: "action \<Rightarrow> bool" where
  "is_Listen (Listen h p) = True"
| "is_Listen _ = False"

definition restart_invocations :: "action list \<Rightarrow> nat" where
  "restart_invocations as = length (filter is_Listen as)"

subsection \<open>Devices and requests used as examples\<close>

text \<open>
  A device without state whose operations all answer \<open>b\<close> and whose mode string is \<open>m\<close>.
\<close>

definition const_device :: "bool \<Rightarrow> string \<Rightarrow> unit CrSDKInterface" where
  "const_device b m =
     \<lparr>switchToPMode = (\<lambda>camera_id d. (b, d)),
      switchToMMode = (\<lambda>camera_id d. (b, d)),
      changeBrightness = (\<lambda>camera_id v d. (b, d)),
      changeAFAreaPosition = (\<lambda>camera_id x y d. (b, d)),
      getCameraMode = (\<lambda>camera_id d. (b, d)),
      getCameraModeStr = (\<lambda>camera_id d. (m, d)),
      uploadCameraSetting = (\<lambda>camera_id d. (b, d))\<rparr>"

definition query :: "(string \<times> string) list \<Rightarrow> Request" where
  "query ps = \<lparr>params = ps\<rparr>"

text \<open>
  The two shapes of a response that a handler builds from a fresh \<^verbatim>\<open>Response\<close>: the
  cross-origin header, then the content type of the body set last.
\<close>

definition json_response :: "int \<Rightarrow> string \<Rightarrow> Response" where
  "json_response code b =
     \<lparr>status = code,
      headers = [(''Access-Control-Allow-Origin'', ''*''), (''Content-Type'', ''application/json'')],
      body = b\<rparr>"

definition text_response :: "int \<Rightarrow> string \<Rightarrow> Response" where
  "text_response code b =
     \<lparr>status = code,
      headers = [(''Access-Control-Allow-Origin'', ''*''), (''Content-Type'', ''text/plain'')],
      body = b\<rparr>"

text \<open>
  A response whose only trace of the handler is the cross-origin header: the status and
  the body are those of the fresh \<^verbatim>\<open>Response\<close>.
\<close>

definition untouched_response :: Response where
  "untouched_response =
     \<lparr>status = - 1, headers = [(''Access-Control-Allow-Origin'', ''*'')], body = []\<rparr>"

text \<open>
  The response envelope of the specification: the body is the serialisation of a JSON
  value, and exactly one of the fields \<^verbatim>\<open>message\<close> and \<^verbatim>\<open>error\<close> is present in it.
\<close>

definition is_envelope :: "json \<Rightarrow> Response \<Rightarrow> bool" where
  "is_envelope j r \<longleftrightarrow> dump j = Inr (body r) \<and> (json_has j ''message'' \<noteq> json_has j ''error'')"

definition cors :: "Response \<Rightarrow> bool" where
  "cors r \<longleftrightarrow> (''Access-Control-Allow-Origin'', ''*'') \<in> set (headers r)"

text \<open>
  A handler caught an exception when its log holds a line written by its \<^verbatim>\<open>catch\<close>
  block, the only place that prints \<^verbatim>\<open>e.what()\<close>.
\<close>

fun is_Error_what :: "log_line \<Rightarrow> bool" where
  "is_Error_what (Error_what fmt e) = True"
| "is_Error_what _ = False"

definition caught_exception :: "'d handler_state \<Rightarrow> bool" where
  "caught_exception st \<longleftrightarrow> list_ex is_Error_what (logs st)"

text \<open>
  What holds of the state every handler leaves behind: the cross-origin header is
  there, and when the status is 200 or 500 and the handler caught no exception, the
  content type is \<^verbatim>\<open>application/json\<close> and the response is an envelope, with
  \<^verbatim>\<open>message\<close> on 200 and \<^verbatim>\<open>error\<close> on 500.
\<close>

definition envelope_rule :: "'d handler_state \<Rightarrow> bool" where
  "envelope_rule st \<longleftrightarrow>
     cors (res st) \<and>
     ((status (res st) = 200 \<or> status (res st) = 500) \<and> \<not> caught_exception st
        \<longrightarrow> get_header_value (res st) ''Content-Type'' = ''application/json'' \<and>
            (\<exists>j. is_envelope j (res st) \<and> json_has j ''message'' = (status (res st) = 200)))"

text \<open>
  The probe results that the specification calls unresponsive: a connection failure
  (to the server or to a proxy), a connection timeout, or a response whose status is
  not 200.
\<close>

definition unresponsive :: "probe \<Rightarrow> bool" where
  "unresponsive p \<longleftrightarrow>
     (case p of
        Request_failed err \<Rightarrow> err = Connection \<or> err = ConnectionTimeout \<or> err = ProxyConnection
      | Response_received response \<Rightarrow> status response \<noteq> 200
      | Probe_threw e \<Rightarrow> False)"

section \<open>Properties\<close>

subsection \<open>Evaluation rules\<close>

lemmas response_simps = set_content_def set_header_def handler_init_def Response_init_def
lemmas stoi_simps = stoi_def isspace_def isdigit_def digits_val_def digit_val_def INT_MIN_def INT_MAX_def
lemmas dump_simps = dump_string_def escape_char_def

lemma const_device_simps [simp]:
  "switchToPMode (const_device b m) = (\<lambda>c d. (b, d))"
  "switchToMMode (const_device b m) = (\<lambda>c d. (b, d))"
  "changeBrightness (const_device b m) = (\<lambda>c v d. (b, d))"
  "changeAFAreaPosition (const_device b m) = (\<lambda>c x y d. (b, d))"
  "getCameraMode (const_device b m) = (\<lambda>c d. (b, d))"
  "getCameraModeStr (const_device b m) = (\<lambda>c d. (m, d))"
  "uploadCameraSetting (const_device b m) = (\<lambda>c d. (b, d))"
  by (simp_all add: const_device_def)

lemma query_param [simp]: "get_param_value (query ps) k = (case map_of ps k of None \<Rightarrow> [] | Some v \<Rightarrow> v)"
  by (simp add: query_def get_param_value_def)

subsection \<open>The checks on \<^verbatim>\<open>camera_id\<close>\<close>

text \<open>
  The four ways through the opening statements of a handler that reads \<^verbatim>\<open>camera_id\<close>.
\<close>

lemma prologue_valid:
  assumes "get_param_value req ''camera_id'' \<noteq> []"
    and "stoi (get_param_value req ''camera_id'') = Inr c"
    and "0 \<le> c" and "c \<le> 3"
  shows "camera_id_prologue req r = Camera_id c (set_header ''Access-Control-Allow-Origin'' ''*'' r)"
  using assms by (simp add: camera_id_prologue_def Let_def)

lemma prologue_missing:
  assumes "get_param_value req ''camera_id'' = []"
  shows "camera_id_prologue req r =
    Returned (set_content ''Missing camera_id parameter'' ''text/plain''
      ((set_header ''Access-Control-Allow-Origin'' ''*'' r)\<lparr>status := 400\<rparr>))"
  using assms by (simp add: camera_id_prologue_def Let_def)

lemma prologue_out_of_range:
  assumes "get_param_value req ''camera_id'' \<noteq> []"
    and "stoi (get_param_value req ''camera_id'') = Inr c"
    and "c < 0 \<or> 3 < c"
  shows "camera_id_prologue req r =
    Returned (set_content ''Camera_id out of range'' ''text/plain''
      ((set_header ''Access-Control-Allow-Origin'' ''*'' r)\<lparr>status := 400\<rparr>))"
  using assms by (auto simp add: camera_id_prologue_def Let_def)

lemma prologue_throws:
  assumes "get_param_value req ''camera_id'' \<noteq> []"
    and "stoi (get_param_value req ''camera_id'') = Inl e"
  shows "camera_id_prologue req r = Threw e (set_header ''Access-Control-Allow-Origin'' ''*'' r)"
  using assms by (simp add: camera_id_prologue_def Let_def)

lemma routes:
  "map_of setupRoutes ''/'' = Some (\<lambda>crsdkInterface. handleIndicator)"
  "map_of setupRoutes ''/switch_to_p_mode'' = Some handleSwitchToPMode"
  "map_of setupRoutes ''/switch_to_m_mode'' = Some handleSwitchToMMode"
  "map_of setupRoutes ''/change_brightness'' = Some handleChangeBrightness"
  "map_of setupRoutes ''/change_af_area_position'' = Some handleChangeAFAreaPosition"
  "map_of setupRoutes ''/get_camera_mode'' = Some handleGetCameraMode"
  "map_of setupRoutes ''/download_camera_setting'' = Some handleDownloadCameraSetting"
  "map_of setupRoutes ''/upload_camera_setting'' = Some handleUploadCameraSetting"
  by (simp_all add: setupRoutes_def)

subsection \<open>\<^verbatim>\<open>/switch_to_p_mode\<close>\<close>

text \<open>
  Claim C3.  A request to \<^verbatim>\<open>/switch_to_p_mode\<close> whose \<^verbatim>\<open>camera_id\<close> is present and
  converts to a number \<open>c\<close> in 0..3 (such as \<^verbatim>\<open>camera_id=1\<close>), served with a device
  interface: when \<^verbatim>\<open>switchToPMode\<close> answers true the response is status 200 with the
  JSON body \<^verbatim>\<open>{"message":"Successfully switched to P mode"}\<close>, when it answers false
  the response is status 500 with the JSON body \<^verbatim>\<open>{"error":"Failed to switch to P mode"}\<close>.
  In both cases the device was called once, with \<open>c\<close>.
\<close>

theorem switch_to_p_mode_response:
  assumes "get_param_value req ''camera_id'' \<noteq> []"
    and "stoi (get_param_value req ''camera_id'') = Inr c"
    and "0 \<le> c" and "c \<le> 3"
  shows \<open>handleSwitchToPMode (Some iface) req (handler_init d) =
    Some \<lparr>res = (if fst (switchToPMode iface c d)
                 then json_response 200 ''{"message":"Successfully switched to P mode"}''
                 else json_response 500 ''{"error":"Failed to switch to P mode"}''),
          dev = snd (switchToPMode iface c d),
          calls = [SwitchToPMode c],
          logs = [Info ''switch to P mode'']\<rparr>\<close>
proof -
  have "camera_id_prologue req (res (handler_init d)) =
      Camera_id c (set_header ''Access-Control-Allow-Origin'' ''*'' (res (handler_init d)))"
    using assms by (rule prologue_valid)
  then show ?thesis
    by (simp add: handleSwitchToPMode_def send_json_def response_simps dump_simps json_response_def
        split_def)
qed

theorem switch_to_p_mode_response_witness:
  \<open>handleSwitchToPMode (Some (const_device True ''P'')) (query [(''camera_id'', ''1'')]) (handler_init ()) =
    Some \<lparr>res = json_response 200 ''{"message":"Successfully switched to P mode"}'',
          dev = (), calls = [SwitchToPMode 1], logs = [Info ''switch to P mode'']\<rparr> \<and>
   handleSwitchToPMode (Some (const_device False ''P'')) (query [(''camera_id'', ''1'')]) (handler_init ()) =
    Some \<lparr>res = json_response 500 ''{"error":"Failed to switch to P mode"}'',
          dev = (), calls = [SwitchToPMode 1], logs = [Info ''switch to P mode'']\<rparr>\<close>
proof -
  let ?req = "query [(''camera_id'', ''1'')]"
  have p: "get_param_value ?req ''camera_id'' \<noteq> []"
    by simp
  have s: "stoi (get_param_value ?req ''camera_id'') = Inr 1"
    by (simp add: stoi_simps)
  show ?thesis
    using switch_to_p_mode_response [OF p s, of "const_device True ''P''" "()"]
      switch_to_p_mode_response [OF p s, of "const_device False ''P''" "()"]
    by simp
qed

text \<open>
  Claim C10.  A request to \<^verbatim>\<open>/switch_to_p_mode\<close> with an accepted \<^verbatim>\<open>camera_id\<close>, served
  while \<^verbatim>\<open>crsdkInterface_\<close> is null: the handler does not go through the pointer (it
  returns, and no device call is made); it logs the null pointer and answers status 500
  with the JSON body \<^verbatim>\<open>{"error":"Failed to switch to P mode"}\<close>.
\<close>

theorem switch_to_p_mode_null_interface:
  assumes "get_param_value req ''camera_id'' \<noteq> []"
    and "stoi (get_param_value req ''camera_id'') = Inr c"
    and "0 \<le> c" and "c \<le> 3"
  shows \<open>handleSwitchToPMode None req (handler_init d) =
    Some \<lparr>res = json_response 500 ''{"error":"Failed to switch to P mode"}'',
          dev = d, calls = [],
          logs = [Error ''ERROR: crsdkInterface_ is nullptr'']\<rparr>\<close>
proof -
  have "camera_id_prologue req (res (handler_init d)) =
      Camera_id c (set_header ''Access-Control-Allow-Origin'' ''*'' (res (handler_init d)))"
    using assms by (rule prologue_valid)
  then show ?thesis
    by (simp add: handleSwitchToPMode_def send_json_def response_simps dump_simps json_response_def)
qed

theorem switch_to_p_mode_null_interface_witness:
  \<open>handleSwitchToPMode None (query [(''camera_id'', ''2'')]) (handler_init (0::nat)) =
    Some \<lparr>res = json_response 500 ''{"error":"Failed to switch to P mode"}'',
          dev = 0, calls = [],
          logs = [Error ''ERROR: crsdkInterface_ is nullptr'']\<rparr>\<close>
proof -
  let ?req = "query [(''camera_id'', ''2'')]"
  have p: "get_param_value ?req ''camera_id'' \<noteq> []"
    by simp
  have s: "stoi (get_param_value ?req ''camera_id'') = Inr 2"
    by (simp add: stoi_simps)
  show ?thesis
    using switch_to_p_mode_null_interface [OF p s, of "0::nat"] by simp
qed

subsection \<open>\<^verbatim>\<open>/change_brightness\<close>\<close>

text \<open>
  Claim C4.  A request to \<^verbatim>\<open>/change_brightness\<close> whose \<^verbatim>\<open>camera_id\<close> converts to a
  number outside 0..3 (such as \<^verbatim>\<open>camera_id=5\<close>) is answered with status 400 and the
  text body \<^verbatim>\<open>Camera_id out of range\<close>; no operation of the device interface is called
  and the device state is the one before the request.  This holds with and without a
  device interface.
\<close>

theorem change_brightness_out_of_range:
  assumes "get_param_value req ''camera_id'' \<noteq> []"
    and "stoi (get_param_value req ''camera_id'') = Inr c"
    and "c < 0 \<or> 3 < c"
  shows "handleChangeBrightness crsdkInterface req (handler_init d) =
    Some \<lparr>res = text_response 400 ''Camera_id out of range'', dev = d, calls = [], logs = []\<rparr>"
proof -
  have "camera_id_prologue req (res (handler_init d)) =
      Returned (set_content ''Camera_id out of range'' ''text/plain''
        ((set_header ''Access-Control-Allow-Origin'' ''*'' (res (handler_init d)))\<lparr>status := 400\<rparr>))"
    using assms by (rule prologue_out_of_range)
  then show ?thesis
    by (simp add: handleChangeBrightness_def response_simps text_response_def)
qed

theorem change_brightness_out_of_range_witness:
  "handleChangeBrightness (Some (const_device True ''P''))
     (query [(''camera_id'', ''5''), (''brightness_value'', ''7'')]) (handler_init ()) =
   Some \<lparr>res = text_response 400 ''Camera_id out of range'', dev = (), calls = [], logs = []\<rparr>"
proof -
  let ?req = "query [(''camera_id'', ''5''), (''brightness_value'', ''7'')]"
  have p: "get_param_value ?req ''camera_id'' \<noteq> []"
    by simp
  have s: "stoi (get_param_value ?req ''camera_id'') = Inr 5"
    by (simp add: stoi_simps)
  show ?thesis
    using change_brightness_out_of_range [OF p s, of "Some (const_device True ''P'')" "()"] by simp
qed

subsection \<open>Requests that fail the checks\<close>

text \<open>
  A missing \<^verbatim>\<open>camera_id\<close> and a \<^verbatim>\<open>camera_id\<close> that converts to a number outside 0..3
  are answered alike by the seven handlers: status 400, a text body, no device call.
\<close>

lemmas handler_defs = handleSwitchToPMode_def handleSwitchToMMode_def handleChangeBrightness_def
  handleChangeAFAreaPosition_def handleGetCameraMode_def handleDownloadCameraSetting_def
  handleUploadCameraSetting_def

lemma camera_id_missing_400:
  assumes "get_param_value req ''camera_id'' = []"
  shows "map (\<lambda>h. h crsdkInterface req (handler_init d)) (map snd camera_id_routes) =
    replicate 7 (Some \<lparr>res = text_response 400 ''Missing camera_id parameter'',
                        dev = d, calls = [], logs = []\<rparr>)"
proof -
  have "camera_id_prologue req (res (handler_init d)) =
      Returned (text_response 400 ''Missing camera_id parameter'')"
    using assms by (simp add: camera_id_prologue_def response_simps text_response_def)
  then show ?thesis
    by (simp add: camera_id_routes_def setupRoutes_def handler_defs handler_init_def numeral_eq_Suc)
qed

lemma camera_id_out_of_range_400:
  assumes "get_param_value req ''camera_id'' \<noteq> []"
    and "stoi (get_param_value req ''camera_id'') = Inr c"
    and "c < 0 \<or> 3 < c"
  shows "map (\<lambda>h. h crsdkInterface req (handler_init d)) (map snd camera_id_routes) =
    replicate 7 (Some \<lparr>res = text_response 400 ''Camera_id out of range'',
                        dev = d, calls = [], logs = []\<rparr>)"
proof -
  have "camera_id_prologue req (res (handler_init d)) =
      Returned (text_response 400 ''Camera_id out of range'')"
    using assms by (auto simp add: camera_id_prologue_def response_simps text_response_def)
  then show ?thesis
    by (simp add: camera_id_routes_def setupRoutes_def handler_defs handler_init_def numeral_eq_Suc)
qed

text \<open>
  \<^verbatim>\<open>std::stoi\<close> reads a leading number and ignores the rest, so a value such as
  \<^verbatim>\<open>1abc\<close> is accepted as 1; a value without a leading number makes it throw.
\<close>

lemma stoi_examples:
  "stoi ''1abc'' = Inr 1"
  "stoi '' 2'' = Inr 2"
  "stoi ''abc'' = Inl Invalid_argument"
  "stoi ''99999999999'' = Inl Out_of_range"
  by (simp_all add: stoi_simps)

text \<open>
  Claim C1.  The claim asks that a \<^verbatim>\<open>camera_id\<close> which is not a number be answered
  with status 400.  At \<^verbatim>\<open>camera_id=abc\<close> each of the seven handlers does the same:
  \<^verbatim>\<open>std::stoi\<close> throws, the handler's \<^verbatim>\<open>catch\<close> writes one log line, and the response
  is left as it was after the cross-origin header was set, with the status \<open>-1\<close> of a
  fresh \<^verbatim>\<open>Response\<close> and an empty body.  No handler sets 400 on this path.
\<close>

theorem camera_id_not_a_number:
  "map (\<lambda>h. h crsdkInterface (query [(''camera_id'', ''abc'')]) (handler_init d)) (map snd camera_id_routes) =
   replicate 7 (Some \<lparr>res = untouched_response, dev = d, calls = [],
                       logs = [Error_what route_error Invalid_argument]\<rparr>) \<and>
   status untouched_response = - 1"
proof -
  have "camera_id_prologue (query [(''camera_id'', ''abc'')]) (res (handler_init d)) =
      Threw Invalid_argument untouched_response"
    by (simp add: camera_id_prologue_def stoi_simps response_simps untouched_response_def)
  then show ?thesis
    by (simp add: camera_id_routes_def setupRoutes_def handler_defs catch_log_def
        handler_init_def untouched_response_def numeral_eq_Suc)
qed

text \<open>
  Claim C2.  The claim asks that a request without a handler-specific parameter be
  answered with status 400 and a text body.  At \<^verbatim>\<open>/change_brightness?camera_id=1\<close>
  (no \<^verbatim>\<open>brightness_value\<close>) and at \<^verbatim>\<open>/change_af_area_position?camera_id=1&x=10\<close>
  (no \<^verbatim>\<open>y\<close>) the status is 400, but the text body set in the \<^verbatim>\<open>else\<close> branch is
  overwritten by the final \<^verbatim>\<open>set_content\<close>: the body is the JSON text \<^verbatim>\<open>null\<close> and the
  content type is \<^verbatim>\<open>application/json\<close>.
\<close>

theorem missing_parameter_body:
  "handleChangeBrightness crsdkInterface (query [(''camera_id'', ''1'')]) (handler_init d) =
     Some \<lparr>res = json_response 400 ''null'', dev = d, calls = [], logs = []\<rparr> \<and>
   handleChangeAFAreaPosition crsdkInterface (query [(''camera_id'', ''1''), (''x'', ''10'')]) (handler_init d) =
     Some \<lparr>res = json_response 400 ''null'', dev = d, calls = [], logs = []\<rparr>"
proof -
  have "camera_id_prologue (query [(''camera_id'', ''1'')]) (res (handler_init d)) =
      Camera_id 1 untouched_response"
    "camera_id_prologue (query [(''camera_id'', ''1''), (''x'', ''10'')]) (res (handler_init d)) =
      Camera_id 1 untouched_response"
    by (simp_all add: camera_id_prologue_def stoi_simps response_simps untouched_response_def)
  then show ?thesis
    by (simp add: handleChangeBrightness_def handleChangeAFAreaPosition_def send_json_def
        response_simps untouched_response_def json_response_def)
qed

subsection \<open>The response envelope\<close>

lemma mode_after_message [simp]:
  "insert_key ''mode'' m [(''message'', v)] = [(''message'', v), (''mode'', m)]"
  by simp

lemma prologue_init_cases:
  "(\<exists>e. camera_id_prologue req Response_init = Threw e untouched_response) \<or>
   (\<exists>c. 0 \<le> c \<and> c \<le> 3 \<and> camera_id_prologue req Response_init = Camera_id c untouched_response) \<or>
   camera_id_prologue req Response_init = Returned (text_response 400 ''Missing camera_id parameter'') \<or>
   camera_id_prologue req Response_init = Returned (text_response 400 ''Camera_id out of range'')"
  by (auto simp add: camera_id_prologue_def Let_def response_simps untouched_response_def text_response_def
      split: sum.splits)

lemma dump_object_brace:
  assumes "dump (Object kvs) = Inr b"
  shows "\<exists>t. b = CHR ''{'' # t"
  using assms by (auto split: sum.splits)

lemma text_not_envelope:
  assumes "b \<noteq> ''null''" and "b = [] \<or> hd b \<noteq> CHR ''{''"
  shows "\<not> is_envelope j (text_response code b)"
proof (cases j)
  case Null
  then show ?thesis using assms by (auto simp: is_envelope_def text_response_def)
next
  case (Object kvs)
  then show ?thesis using assms dump_object_brace [of kvs b]
    by (auto simp: is_envelope_def text_response_def)
qed

lemma rule_text:
  assumes "res st = text_response 400 b"
  shows "envelope_rule st"
  using assms by (simp add: envelope_rule_def cors_def text_response_def)

lemma rule_untouched:
  assumes "res st = untouched_response"
  shows "envelope_rule st"
  using assms by (simp add: envelope_rule_def cors_def untouched_response_def)

lemma rule_catch:
  assumes "cors (res st)"
  shows "envelope_rule (catch_log fmt e st)"
  using assms by (simp add: envelope_rule_def catch_log_def caught_exception_def)

lemma rule_send_json:
  assumes "res st = \<lparr>status = code, headers = [(''Access-Control-Allow-Origin'', ''*'')], body = []\<rparr>"
    and "json_has j ''message'' \<noteq> json_has j ''error''"
    and "json_has j ''message'' = (code = 200)"
  shows "envelope_rule (send_json fmt j st)"
proof (cases "dump j")
  case (Inl e)
  have "cors (res st)"
    using assms(1) by (simp add: cors_def)
  then show ?thesis
    using Inl by (simp add: send_json_def rule_catch)
next
  case (Inr s)
  then have "res (send_json fmt j st) = json_response code s"
    using assms(1) by (simp add: send_json_def response_simps json_response_def)
  moreover have "is_envelope j (json_response code s)"
    using Inr assms by (simp add: is_envelope_def json_response_def)
  ultimately show ?thesis
    using assms by (auto simp add: envelope_rule_def cors_def json_response_def get_header_value_def)
qed

lemma rule_send_null:
  assumes "res st = \<lparr>status = 400, headers = hs, body = b\<rparr>"
    and "(''Access-Control-Allow-Origin'', ''*'') \<in> set hs"
  shows "envelope_rule (send_json fmt Null st)"
  using assms by (simp add: send_json_def response_simps envelope_rule_def cors_def)

lemmas rule_simps = rule_text rule_untouched rule_catch rule_send_json rule_send_null
  handler_init_def Response_init_def untouched_response_def text_response_def split_def Let_def
  set_content_def set_header_def cors_def

text \<open>
  The rule is not satisfied by default: a status 500 with a text body and no caught
  exception breaks it, and so does a status 200 without a body.
\<close>

lemma envelope_rule_rejects:
  "\<not> envelope_rule \<lparr>res = text_response 500 ''oops'', dev = (), calls = [], logs = []\<rparr>"
  "\<not> envelope_rule \<lparr>res = untouched_response\<lparr>status := 200\<rparr>, dev = (), calls = [], logs = []\<rparr>"
  by (simp_all add: envelope_rule_def caught_exception_def text_response_def untouched_response_def
      get_header_value_def cors_def)

lemma indicator_rule:
  assumes "handleIndicator req (handler_init d) = Some st"
  shows "envelope_rule st"
  using assms by (auto simp add: handleIndicator_def rule_simps)

lemma p_mode_rule:
  assumes "handleSwitchToPMode crsdkInterface req (handler_init d) = Some st"
  shows "envelope_rule st"
  using assms prologue_init_cases [of req]
  by (auto simp add: handleSwitchToPMode_def rule_simps split: option.splits if_splits)

lemma m_mode_rule:
  assumes "handleSwitchToMMode crsdkInterface req (handler_init d) = Some st"
  shows "envelope_rule st"
  using assms prologue_init_cases [of req]
  by (auto simp add: handleSwitchToMMode_def rule_simps split: option.splits if_splits)

lemma brightness_rule:
  assumes "handleChangeBrightness crsdkInterface req (handler_init d) = Some st"
  shows "envelope_rule st"
  using assms prologue_init_cases [of req]
  by (auto simp add: handleChangeBrightness_def rule_simps split: option.splits if_splits sum.splits)

lemma af_rule:
  assumes "handleChangeAFAreaPosition crsdkInterface req (handler_init d) = Some st"
  shows "envelope_rule st"
  using assms prologue_init_cases [of req]
  by (auto simp add: handleChangeAFAreaPosition_def rule_simps split: option.splits if_splits sum.splits)

lemma get_mode_rule:
  assumes "handleGetCameraMode crsdkInterface req (handler_init d) = Some st"
  shows "envelope_rule st"
  using assms prologue_init_cases [of req]
  by (auto simp add: handleGetCameraMode_def rule_simps split: option.splits if_splits)

lemma download_rule:
  assumes "handleDownloadCameraSetting crsdkInterface req (handler_init d) = Some st"
  shows "envelope_rule st"
  using assms prologue_init_cases [of req]
  by (auto simp add: handleDownloadCameraSetting_def rule_simps split: option.splits if_splits)

lemma upload_rule:
  assumes "handleUploadCameraSetting crsdkInterface req (handler_init d) = Some st"
  shows "envelope_rule st"
  using assms prologue_init_cases [of req]
  by (auto simp add: handleUploadCameraSetting_def rule_simps split: option.splits if_splits)

text \<open>
  Claim C5, as stated, fails.  The claim asks that every response, also one with status
  400, hold exactly one of the fields \<^verbatim>\<open>message\<close> and \<^verbatim>\<open>error\<close>.  A request to
  \<^verbatim>\<open>/switch_to_p_mode\<close> without \<^verbatim>\<open>camera_id\<close> is answered with status 400 and the text
  body \<^verbatim>\<open>Missing camera_id parameter\<close>, which is the serialisation of no JSON value and so
  holds neither field.
\<close>

theorem plain_text_400_is_no_envelope:
  "handleSwitchToPMode (Some (const_device True ''P'')) (query []) (handler_init ()) =
     Some \<lparr>res = text_response 400 ''Missing camera_id parameter'', dev = (), calls = [], logs = []\<rparr> \<and>
   (\<forall>j. \<not> is_envelope j (text_response 400 ''Missing camera_id parameter''))"
proof -
  have "camera_id_prologue (query []) (res (handler_init ())) =
      Returned (text_response 400 ''Missing camera_id parameter'')"
    by (simp add: camera_id_prologue_def response_simps text_response_def)
  then have "handleSwitchToPMode (Some (const_device True ''P'')) (query []) (handler_init ()) =
     Some \<lparr>res = text_response 400 ''Missing camera_id parameter'', dev = (), calls = [], logs = []\<rparr>"
    by (simp add: handleSwitchToPMode_def handler_init_def)
  moreover have "\<forall>j. \<not> is_envelope j (text_response 400 ''Missing camera_id parameter'')"
    by (rule allI, rule text_not_envelope) simp_all
  ultimately show ?thesis by simp
qed

text \<open>
  Claim C5, amended.  For every route of \<^verbatim>\<open>setupRoutes\<close>, every request and every
  device, the response the handler leaves behind carries
  \<^verbatim>\<open>Access-Control-Allow-Origin: *\<close>, whatever the outcome; and when its status is 200 or
  500 and the handler caught no exception, its content type is \<^verbatim>\<open>application/json\<close>
  and its body is the serialisation of a JSON value that holds exactly one of
  \<^verbatim>\<open>message\<close> and \<^verbatim>\<open>error\<close>: \<^verbatim>\<open>message\<close> on 200, \<^verbatim>\<open>error\<close> on 500.
\<close>

theorem envelope_on_200_and_500:
  assumes "(path, h) \<in> set setupRoutes"
    and "h crsdkInterface req (handler_init d) = Some st"
  shows "envelope_rule st"
  using assms
  by (auto simp add: setupRoutes_def indicator_rule p_mode_rule m_mode_rule brightness_rule af_rule
      get_mode_rule download_rule upload_rule)

theorem envelope_on_200_and_500_witness:
  \<open>cors (json_response 500 ''{"error":"Failed to upload camera setting"}'') \<and>
   get_header_value (json_response 500 ''{"error":"Failed to upload camera setting"}'') ''Content-Type'' =
     ''application/json'' \<and>
   (\<exists>j. is_envelope j (json_response 500 ''{"error":"Failed to upload camera setting"}'') \<and>
        \<not> json_has j ''message'')\<close>
proof -
  let ?req = "query [(''camera_id'', ''3'')]"
  have "camera_id_prologue ?req (res (handler_init ())) =
      Camera_id 3 (set_header ''Access-Control-Allow-Origin'' ''*'' (res (handler_init ())))"
    by (rule prologue_valid) (simp_all add: stoi_simps)
  then have run: \<open>handleUploadCameraSetting (Some (const_device False ''P'')) ?req (handler_init ()) =
      Some \<lparr>res = json_response 500 ''{"error":"Failed to upload camera setting"}'',
            dev = (), calls = [UploadCameraSetting 3], logs = []\<rparr>\<close>
    by (simp add: handleUploadCameraSetting_def send_json_def response_simps dump_simps json_response_def)
  have route: "(''/upload_camera_setting'', handleUploadCameraSetting) \<in> set setupRoutes"
    by (simp add: setupRoutes_def)
  show ?thesis
    using envelope_on_200_and_500 [OF route run]
    by (simp add: envelope_rule_def caught_exception_def json_response_def)
qed

subsection \<open>\<^verbatim>\<open>/get_camera_mode\<close>\<close>

lemma escape_char_not_empty: "escape_char c \<noteq> []"
  by (simp add: escape_char_def)

lemma dump_string_empty:
  assumes "dump_string s = Inr q"
  shows "(q = [CHR 0x22, CHR 0x22]) = (s = [])"
proof (cases s)
  case Nil
  then show ?thesis using assms by (auto simp add: dump_string_def)
next
  case (Cons c cs)
  then obtain x xs where "escape_char c = x # xs"
    using escape_char_not_empty [of c] by (cases "escape_char c") auto
  then show ?thesis using assms Cons
    by (auto simp add: dump_string_def split: if_splits)
qed

lemma dump_string_constants:
  \<open>dump_string ''message'' = Inr ''"message"''\<close>
  \<open>dump_string ''mode'' = Inr ''"mode"''\<close>
  \<open>dump_string ''Successfully retrieved camera mode'' = Inr ''"Successfully retrieved camera mode"''\<close>
  \<open>dump_string ''error'' = Inr ''"error"''\<close>
  \<open>dump_string ''Failed to retrieve camera mode'' = Inr ''"Failed to retrieve camera mode"''\<close>
  by (simp_all add: dump_simps)

text \<open>
  Claim C6, as stated, fails.  The claim asks for a \<^verbatim>\<open>mode\<close> field that is not empty.
  With a device whose \<^verbatim>\<open>getCameraMode\<close> answers true and whose \<^verbatim>\<open>getCameraModeStr\<close>
  answers the empty string, \<^verbatim>\<open>/get_camera_mode?camera_id=0\<close> is answered with status 200
  and a \<^verbatim>\<open>mode\<close> field that is empty.
\<close>

theorem empty_mode_string:
  \<open>handleGetCameraMode (Some (const_device True [])) (query [(''camera_id'', ''0'')]) (handler_init ()) =
    Some \<lparr>res = json_response 200 ''{"message":"Successfully retrieved camera mode","mode":""}'',
          dev = (), calls = [GetCameraMode 0, GetCameraModeStr 0], logs = []\<rparr>\<close>
proof -
  have "camera_id_prologue (query [(''camera_id'', ''0'')]) (res (handler_init ())) =
      Camera_id 0 (set_header ''Access-Control-Allow-Origin'' ''*'' (res (handler_init ())))"
    by (rule prologue_valid) (simp_all add: stoi_simps)
  then show ?thesis
    by (simp add: handleGetCameraMode_def send_json_def response_simps dump_simps json_response_def)
qed

text \<open>
  Claim C6, amended.  A request to \<^verbatim>\<open>/get_camera_mode\<close> with an accepted \<^verbatim>\<open>camera_id\<close>
  \<open>c\<close>, served with a device interface.  When \<^verbatim>\<open>getCameraMode\<close> answers true,
  \<^verbatim>\<open>getCameraModeStr\<close> is called next, on the device state \<^verbatim>\<open>getCameraMode\<close> left.
  If the string it returns is well-formed UTF-8, so that \<^verbatim>\<open>dump\<close> succeeds, the response
  is status 200 with a JSON body that holds \<^verbatim>\<open>message\<close> and, under \<^verbatim>\<open>mode\<close>, that
  string as \<^verbatim>\<open>dump\<close> quotes it: empty exactly when the string is empty.  If it is not
  well-formed UTF-8, \<^verbatim>\<open>dump\<close> throws and the handler catches: status 200, no body, one
  log line.  When \<^verbatim>\<open>getCameraMode\<close> answers false, \<^verbatim>\<open>getCameraModeStr\<close> is not called
  and the response is status 500 with the error body.
\<close>

theorem get_camera_mode_response:
  assumes "get_param_value req ''camera_id'' \<noteq> []"
    and "stoi (get_param_value req ''camera_id'') = Inr c"
    and "0 \<le> c" and "c \<le> 3"
    and "getCameraMode iface c d = (ok, d1)"
    and "getCameraModeStr iface c d1 = (mode, d2)"
  shows \<open>handleGetCameraMode (Some iface) req (handler_init d) =
    Some (if ok
          then (case dump_string mode of
                  Inr quoted \<Rightarrow>
                    \<lparr>res = json_response 200
                       (''{"message":"Successfully retrieved camera mode","mode":'' @ quoted @ ''}''),
                     dev = d2, calls = [GetCameraMode c, GetCameraModeStr c], logs = []\<rparr>
                | Inl e \<Rightarrow>
                    \<lparr>res = untouched_response\<lparr>status := 200\<rparr>,
                     dev = d2, calls = [GetCameraMode c, GetCameraModeStr c],
                     logs = [Error_what route_error e]\<rparr>)
          else \<lparr>res = json_response 500 ''{"error":"Failed to retrieve camera mode"}'',
                dev = d1, calls = [GetCameraMode c], logs = []\<rparr>) \<and>
    (\<forall>quoted. dump_string mode = Inr quoted \<longrightarrow> (quoted = ''""'') = (mode = []))\<close>
proof -
  have "camera_id_prologue req (res (handler_init d)) =
      Camera_id c (set_header ''Access-Control-Allow-Origin'' ''*'' (res (handler_init d)))"
    using assms(1-4) by (rule prologue_valid)
  then have \<open>handleGetCameraMode (Some iface) req (handler_init d) =
    Some (if ok
          then (case dump_string mode of
                  Inr quoted \<Rightarrow>
                    \<lparr>res = json_response 200
                       (''{"message":"Successfully retrieved camera mode","mode":'' @ quoted @ ''}''),
                     dev = d2, calls = [GetCameraMode c, GetCameraModeStr c], logs = []\<rparr>
                | Inl e \<Rightarrow>
                    \<lparr>res = untouched_response\<lparr>status := 200\<rparr>,
                     dev = d2, calls = [GetCameraMode c, GetCameraModeStr c],
                     logs = [Error_what route_error e]\<rparr>)
          else \<lparr>res = json_response 500 ''{"error":"Failed to retrieve camera mode"}'',
                dev = d1, calls = [GetCameraMode c], logs = []\<rparr>)\<close>
    using assms(5,6)
    by (cases "dump_string mode")
      (simp_all add: handleGetCameraMode_def send_json_def catch_log_def response_simps
        dump_string_constants json_response_def untouched_response_def)
  then show ?thesis
    using dump_string_empty [of mode] by simp
qed

theorem get_camera_mode_response_witness:
  \<open>handleGetCameraMode (Some (const_device True ''P'')) (query [(''camera_id'', ''0'')]) (handler_init ()) =
    Some \<lparr>res = json_response 200 ''{"message":"Successfully retrieved camera mode","mode":"P"}'',
          dev = (), calls = [GetCameraMode 0, GetCameraModeStr 0], logs = []\<rparr> \<and>
   handleGetCameraMode (Some (const_device False ''P'')) (query [(''camera_id'', ''0'')]) (handler_init ()) =
    Some \<lparr>res = json_response 500 ''{"error":"Failed to retrieve camera mode"}'',
          dev = (), calls = [GetCameraMode 0], logs = []\<rparr>\<close>
proof -
  let ?req = "query [(''camera_id'', ''0'')]"
  have p: "get_param_value ?req ''camera_id'' \<noteq> []"
    by simp
  have s: "stoi (get_param_value ?req ''camera_id'') = Inr 0"
    by (simp add: stoi_simps)
  have q: \<open>dump_string ''P'' = Inr ''"P"''\<close>
    by (simp add: dump_simps)
  show ?thesis
    using get_camera_mode_response [OF p s, of "const_device True ''P''" "()" True "()" "''P''" "()"]
      get_camera_mode_response [OF p s, of "const_device False ''P''" "()" False "()" "''P''" "()"] q
    by simp
qed

subsection \<open>The restart\<close>

lemma restartServer_actions:
  "restartServer cfg outcome =
     (case outcome of
        None \<Rightarrow> ([Sleep_seconds 1, Listen (host cfg) (port cfg)], Never_returns)
      | Some b \<Rightarrow> ([Sleep_seconds 1, Listen (host cfg) (port cfg),
                     Log (Info ''Server initialization succeeded'')], Returns))"
  by (simp add: restartServer_def listen_def split: option.splits)

text \<open>
  Claim C8.  Every call of \<^verbatim>\<open>restartServer\<close> first sleeps one second and then calls
  \<^verbatim>\<open>listen\<close> with the host and the port of the same server object.  It does nothing
  else before, and after it only writes a log line, when \<^verbatim>\<open>listen\<close> returns: nothing
  stops, closes or rebuilds the listener.
\<close>

theorem restart_waits_then_listens:
  "fst (restartServer cfg outcome) =
     [Sleep_seconds 1, Listen (host cfg) (port cfg)] @
     (case outcome of None \<Rightarrow> [] | Some b \<Rightarrow> [Log (Info ''Server initialization succeeded'')])"
  by (simp add: restartServer_def listen_def split: option.splits)

theorem restart_waits_then_listens_witness:
  "fst (restartServer \<lparr>host = ''0.0.0.0'', port = 8080\<rparr> None) =
     [Sleep_seconds 1, Listen ''0.0.0.0'' 8080] \<and>
   fst (restartServer \<lparr>host = ''0.0.0.0'', port = 8080\<rparr> (Some False)) =
     [Sleep_seconds 1, Listen ''0.0.0.0'' 8080, Log (Info ''Server initialization succeeded'')]"
  using restart_waits_then_listens [of "\<lparr>host = ''0.0.0.0'', port = 8080\<rparr>" None]
    restart_waits_then_listens [of "\<lparr>host = ''0.0.0.0'', port = 8080\<rparr>" "Some False"]
  by simp

subsection \<open>The monitoring thread\<close>

lemma restart_invocations_append [simp]:
  "restart_invocations (as @ bs) = restart_invocations as + restart_invocations bs"
  by (simp add: restart_invocations_def)

lemma restart_invocations_simps [simp]:
  "restart_invocations [] = 0"
  "restart_invocations (Listen h p # as) = Suc (restart_invocations as)"
  "restart_invocations (Log l # as) = restart_invocations as"
  "restart_invocations (Sleep_seconds n # as) = restart_invocations as"
  by (simp_all add: restart_invocations_def)

lemma monitor_cycle_restarts:
  "restart_invocations (fst (monitor_cycle cfg p outcome)) = (if unresponsive p then 1 else 0)"
  by (cases p; cases outcome) (auto simp add: monitor_cycle_def unresponsive_def restartServer_actions)

text \<open>
  Claim C7.  In one iteration of the monitoring loop: when the probe fails with a
  connection error or a connection timeout, or returns a response whose status is not
  200, \<^verbatim>\<open>restartServer\<close> is invoked exactly once, after the log lines that announce it;
  when the probe returns status 200 it is not invoked; any other failure of the probe
  (another \<^verbatim>\<open>httplib::Error\<close>, or an exception) is logged and \<^verbatim>\<open>restartServer\<close> is not
  invoked.
\<close>

theorem one_restart_per_unresponsive_probe:
  "restart_invocations (fst (monitor_cycle cfg p outcome)) = (if unresponsive p then 1 else 0) \<and>
   (unresponsive p \<longrightarrow>
      fst (monitor_cycle cfg p outcome) =
        (case p of
           Request_failed err \<Rightarrow>
             [Log (Error ''Error sending GET request''), Log (Error ''Connection error! Restarting server...'')]
         | Response_received response \<Rightarrow> [Log (Error ''Server crashed. Restarting...'')]
         | Probe_threw e \<Rightarrow> []) @
        fst (restartServer cfg outcome) @
        (case outcome of None \<Rightarrow> [] | Some b \<Rightarrow> [Sleep_seconds 60])) \<and>
   (\<not> unresponsive p \<longrightarrow>
      fst (monitor_cycle cfg p outcome) =
        (case p of
           Request_failed err \<Rightarrow> [Log (Error ''Error sending GET request''), Sleep_seconds 60]
         | Response_received response \<Rightarrow> [Log (Info ''The server running''), Sleep_seconds 60]
         | Probe_threw e \<Rightarrow>
             [Log (Error_what ''Unexpected error in monitoring thread: {}'' e), Sleep_seconds 60]))"
proof (cases p)
  case (Request_failed err)
  then show ?thesis
    by (cases outcome) (auto simp add: monitor_cycle_def unresponsive_def restartServer_actions)
next
  case (Response_received response)
  then show ?thesis
    by (cases outcome) (auto simp add: monitor_cycle_def unresponsive_def restartServer_actions)
next
  case (Probe_threw e)
  then show ?thesis
    by (simp add: monitor_cycle_def unresponsive_def)
qed

theorem one_restart_per_unresponsive_probe_witness:
  "restart_invocations (fst (monitor_cycle \<lparr>host = ''0.0.0.0'', port = 8080\<rparr>
       (Request_failed Connection) (Some False))) = 1 \<and>
   restart_invocations (fst (monitor_cycle \<lparr>host = ''0.0.0.0'', port = 8080\<rparr>
       (Request_failed ConnectionTimeout) None)) = 1 \<and>
   restart_invocations (fst (monitor_cycle \<lparr>host = ''0.0.0.0'', port = 8080\<rparr>
       (Response_received (json_response 503 [])) (Some False))) = 1 \<and>
   fst (monitor_cycle \<lparr>host = ''0.0.0.0'', port = 8080\<rparr>
       (Response_received (json_response 200 [])) (Some False)) =
     [Log (Info ''The server running''), Sleep_seconds 60] \<and>
   fst (monitor_cycle \<lparr>host = ''0.0.0.0'', port = 8080\<rparr> (Request_failed Other_error) (Some False)) =
     [Log (Error ''Error sending GET request''), Sleep_seconds 60] \<and>
   fst (monitor_cycle \<lparr>host = ''0.0.0.0'', port = 8080\<rparr> (Probe_threw (Runtime_error ''x'')) (Some False)) =
     [Log (Error_what ''Unexpected error in monitoring thread: {}'' (Runtime_error ''x'')), Sleep_seconds 60]"
  using one_restart_per_unresponsive_probe [of "\<lparr>host = ''0.0.0.0'', port = 8080\<rparr>" "Request_failed Connection" "Some False"]
    one_restart_per_unresponsive_probe [of "\<lparr>host = ''0.0.0.0'', port = 8080\<rparr>" "Request_failed ConnectionTimeout" None]
    one_restart_per_unresponsive_probe [of "\<lparr>host = ''0.0.0.0'', port = 8080\<rparr>" "Response_received (json_response 503 [])" "Some False"]
    one_restart_per_unresponsive_probe [of "\<lparr>host = ''0.0.0.0'', port = 8080\<rparr>" "Response_received (json_response 200 [])" "Some False"]
    one_restart_per_unresponsive_probe [of "\<lparr>host = ''0.0.0.0'', port = 8080\<rparr>" "Request_failed Other_error" "Some False"]
    one_restart_per_unresponsive_probe [of "\<lparr>host = ''0.0.0.0'', port = 8080\<rparr>" "Probe_threw (Runtime_error ''x'')" "Some False"]
  by (simp add: unresponsive_def json_response_def restartServer_def listen_def)

text \<open>
  Over any number of iterations whose probes are all healthy, the loop never invokes
  \<^verbatim>\<open>restartServer\<close>.
\<close>

lemma healthy_probes_no_restart:
  assumes "\<forall>(p, outcome) \<in> set obs. \<not> unresponsive p"
  shows "restart_invocations (fst (monitoring_loop cfg obs)) = 0"
  using assms
proof (induction obs)
  case Nil
  then show ?case by simp
next
  case (Cons ob obs)
  obtain p outcome where ob: "ob = (p, outcome)" by (cases ob)
  with Cons.prems have "\<not> unresponsive p" by simp
  then have "restart_invocations (fst (monitor_cycle cfg p outcome)) = 0"
    by (simp add: monitor_cycle_restarts)
  moreover have "restart_invocations (fst (monitoring_loop cfg obs)) = 0"
    using Cons by simp
  ultimately show ?case
    using ob
    by (cases "monitor_cycle cfg p outcome"; cases "monitoring_loop cfg obs";
        cases "snd (monitor_cycle cfg p outcome)") auto
qed

subsection \<open>Startup\<close>

text \<open>
  When the port is free, \<^verbatim>\<open>run\<close> starts the monitoring thread, then listens, and does
  not return.
\<close>

lemma run_port_available:
  assumes "isPortAvailable (socket_result env) (bind_result env) = Inr True"
  shows "run cfg env =
    ([Log (Info (''The server runs at address: '' @ host cfg @ '':'' @ to_string (port cfg))),
      Start_monitoring_thread, Listen (host cfg) (port cfg)] @
     (case listen_outcome env of
        None \<Rightarrow> []
      | Some b \<Rightarrow> [Log (Info ''Start listening successfully''), Join_monitoring_thread]),
     Never_returns)"
  using assms by (simp add: run_def listen_def split: option.splits)




end
